theory Spec2Isabelle
  imports Main
begin

section \<open>Values of the platform\<close>

text \<open>
  The program is a MakeCode project for the micro:bit: one interpreter, \<open>process_command\<close>,
  stored twice in the source file, once in MakeCode Python and once in TypeScript. Strings
  are lists of characters. A number of the platform is an integer or the value that
  \<open>parseInt\<close> gives for a token that holds no number.
\<close>

datatype number = Num int | NaN

text \<open>The members of the platform's enumerations that the source names.\<close>

datatype dimension = Strength
datatype analog_pin = AnalogPin_P0 | AnalogPin_P1 | AnalogPin_P2
datatype digital_pin = DigitalPin_P0 | DigitalPin_P1 | DigitalPin_P2
datatype wave_shape = Sawtooth
datatype sound_expression_effect = Effect_None
datatype interpolation_curve = Linear
datatype playback_mode = UntilDone

text \<open>
  \<open>music.createSoundExpression(shape, startFrequency, endFrequency, startVolume,
  endVolume, duration, effect, curve)\<close> builds a value; playing it is the hardware action.
\<close>

datatype sound_expression =
  SoundExpression wave_shape number number number number number
    sound_expression_effect interpolation_curve

definition createSoundExpression ::
  "wave_shape \<Rightarrow> number \<Rightarrow> number \<Rightarrow> number \<Rightarrow> number \<Rightarrow> number \<Rightarrow>
   sound_expression_effect \<Rightarrow> interpolation_curve \<Rightarrow> sound_expression" where
  "createSoundExpression w f1 f2 v1 v2 d e c = SoundExpression w f1 f2 v1 v2 d e c"

text \<open>
  Every call that leaves the interpreter is one event: a line written to a transport, a
  sensor or pin read, a pin write, a sound, an operation on the LED matrix.
\<close>

datatype event =
    UartWriteLine string
  | SerialWriteLine string
  | Temperature
  | LightLevel
  | Acceleration dimension
  | CompassHeading
  | AnalogReadPin analog_pin
  | DigitalWritePin digital_pin number
  | AnalogWritePin analog_pin number
  | MusicPlay sound_expression playback_mode
  | StopAllSounds
  | ShowString string
  | LedPlot number number
  | LedUnplot number number
  | LedToggle number number
  | ClearScreen

text \<open>
  What the platform answers: the readings of the sensors and of the analog pins at the
  time of the call, and its conversion of a token to a number (\<open>parseInt\<close> in the
  TypeScript encoding, \<open>int\<close> in the Python one, which MakeCode maps to the same
  function). None of them is defined in the source file, so they are parameters.
\<close>

record platform =
  parseInt :: "string \<Rightarrow> number"
  input_temperature :: number
  input_lightLevel :: number
  input_acceleration :: "dimension \<Rightarrow> number"
  input_compassHeading :: number
  pins_analogReadPin :: "analog_pin \<Rightarrow> number"

text \<open>
  The state of the program: the global variable \<open>cmd\<close> and the events so far, oldest
  first.
\<close>

record state =
  cmd :: string
  trace :: "event list"

section \<open>String functions of the platform\<close>

text \<open>
  Modelled from the spec: \<open>String.trim\<close>, \<open>String.toLowerCase\<close>, the conversion of a
  number to a string and \<open>_py.py_string_split\<close> belong to the MakeCode runtime and are
  not in the source file. The spec says that input is ASCII text, that the normalizer
  strips leading and trailing whitespace and lower-cases, and that the line is split on
  single ASCII-space characters, runs of spaces producing empty tokens.
\<close>

definition is_space :: "char \<Rightarrow> bool" where
  "is_space c = ((of_char c :: nat) = 32 \<or> (9 \<le> (of_char c :: nat) \<and> (of_char c :: nat) \<le> 13))"

definition trim :: "string \<Rightarrow> string" where
  "trim s = rev (dropWhile is_space (rev (dropWhile is_space s)))"

definition lower_char :: "char \<Rightarrow> char" where
  "lower_char c =
     (if 65 \<le> (of_char c :: nat) \<and> (of_char c :: nat) \<le> 90
      then char_of ((of_char c :: nat) + 32) else c)"

definition toLowerCase :: "string \<Rightarrow> string" where
  "toLowerCase s = map lower_char s"

fun split_from :: "char \<Rightarrow> string \<Rightarrow> string \<Rightarrow> string list" where
  "split_from sep cur [] = [cur]"
| "split_from sep cur (c # cs) =
     (if c = sep then cur # split_from sep [] cs else split_from sep (cur @ [c]) cs)"

definition py_string_split :: "string \<Rightarrow> char \<Rightarrow> string list" where
  "py_string_split s sep = split_from sep [] s"

fun digits :: "nat \<Rightarrow> string" where
  "digits n =
     (if n < 10 then [char_of (48 + n)] else digits (n div 10) @ [char_of (48 + n mod 10)])"

declare digits.simps [simp del]

fun num_to_string :: "number \<Rightarrow> string" where
  "num_to_string NaN = ''NaN''"
| "num_to_string (Num i) = (if i < 0 then CHR ''-'' # digits (nat (- i)) else digits (nat i))"

section \<open>The responder\<close>

definition emit :: "event \<Rightarrow> state \<Rightarrow> state" where
  "emit e st = st\<lparr>trace := trace st @ [e]\<rparr>"

text \<open>
  \<^verbatim>\<open>
  function reply(msg: string) {
      bluetooth.uartWriteLine(msg)
      serial.writeLine(msg)
  }
  \<close>
\<close>

definition reply :: "string \<Rightarrow> state \<Rightarrow> state" where
  "reply msg st = emit (SerialWriteLine msg) (emit (UartWriteLine msg) st)"

section \<open>The interpreter, TypeScript encoding\<close>

text \<open>
  The loop of the \<open>print\<close> command:
  \<^verbatim>\<open>
  for (let i = 1; i < parts.length; i++) {
      text += parts[i] + " "
  }
  \<close>
\<close>

function print_loop :: "string list \<Rightarrow> nat \<Rightarrow> string \<Rightarrow> string" where
  "print_loop parts i text =
     (if i < length parts then print_loop parts (i + 1) (text @ (parts ! i @ '' ''))
      else text)"
  by pat_completeness auto
termination
  by (relation "measure (\<lambda>(parts, i, text). length parts - i)") auto

declare print_loop.simps [simp del]

text \<open>
  \<open>process_command\<close> of the TypeScript encoding, branch by branch and in the order of
  the source. Each \<open>return\<close> of the source gives back the state as it is at that point.
\<close>

definition process_command :: "platform \<Rightarrow> string \<Rightarrow> state \<Rightarrow> state" where
  "process_command pf msg_input st0 =
    (let raw_msg = toLowerCase (trim msg_input) in
     if length raw_msg = 0 then st0
     else
      let parts = py_string_split raw_msg CHR '' '';
          st = st0\<lparr>cmd := parts ! 0\<rparr>
      in
      if cmd st = ''get_sensor'' then
        (if length parts < 2 then st
         else
          let type = parts ! 1 in
          if type = ''temp'' then
            reply ('''' @ ('''' @ num_to_string (input_temperature pf))) (emit Temperature st)
          else if type = ''light'' then
            reply ('''' @ ('''' @ num_to_string (input_lightLevel pf))) (emit LightLevel st)
          else if type = ''accel'' then
            reply ('''' @ ('''' @ num_to_string (input_acceleration pf Strength)))
              (emit (Acceleration Strength) st)
          else if type = ''compass'' then
            reply ('''' @ ('''' @ num_to_string (input_compassHeading pf)))
              (emit CompassHeading st)
          else st)
      else if cmd st = ''get_pin'' then
        (if length parts < 2 then st
         else
          let p_name = parts ! 1;
              val = Num 0;
              (val, st) =
                (if p_name = ''p0'' then
                   (pins_analogReadPin pf AnalogPin_P0, emit (AnalogReadPin AnalogPin_P0) st)
                 else if p_name = ''p1'' then
                   (pins_analogReadPin pf AnalogPin_P1, emit (AnalogReadPin AnalogPin_P1) st)
                 else if p_name = ''p2'' then
                   (pins_analogReadPin pf AnalogPin_P2, emit (AnalogReadPin AnalogPin_P2) st)
                 else (val, st))
          in reply (''PIN '' @ p_name @ '': '' @ ('''' @ ('''' @ num_to_string val))) st)
      else if cmd st = ''pin'' then
        (if length parts < 4 then st
         else
          let mode = parts ! 1;
              p_label = parts ! 2;
              v = parseInt pf (parts ! 3)
          in
          if mode = ''d'' then
            (if p_label = ''p0'' then emit (DigitalWritePin DigitalPin_P0 v) st
             else if p_label = ''p1'' then emit (DigitalWritePin DigitalPin_P1 v) st
             else if p_label = ''p2'' then emit (DigitalWritePin DigitalPin_P2 v) st
             else st)
          else if p_label = ''p0'' then emit (AnalogWritePin AnalogPin_P0 v) st
          else if p_label = ''p1'' then emit (AnalogWritePin AnalogPin_P1 v) st
          else if p_label = ''p2'' then emit (AnalogWritePin AnalogPin_P2 v) st
          else st)
      else if cmd st = ''tone'' then
        (if length parts < 3 then st
         else
          let freq = parseInt pf (parts ! 1);
              dur = parseInt pf (parts ! 2)
          in emit (MusicPlay
                    (createSoundExpression Sawtooth freq freq (Num 255) (Num 255) dur
                       Effect_None Linear)
                    UntilDone) st)
      else if cmd st = ''print'' then
        (let text = '''';
             text = print_loop parts 1 text
         in emit (ShowString ('''' @ trim text)) st)
      else if cmd st = ''plot'' then
        (if length parts < 3 then st
         else emit (LedPlot (parseInt pf (parts ! 1)) (parseInt pf (parts ! 2))) st)
      else if cmd st = ''unplot'' then
        (if length parts < 3 then st
         else emit (LedUnplot (parseInt pf (parts ! 1)) (parseInt pf (parts ! 2))) st)
      else if cmd st = ''toggle'' then
        (if length parts < 3 then st
         else emit (LedToggle (parseInt pf (parts ! 1)) (parseInt pf (parts ! 2))) st)
      else if cmd st = ''clear'' then
        emit ClearScreen st
      else if cmd st = ''reset'' then
        (let st = emit ClearScreen st;
             st = emit (AnalogWritePin AnalogPin_P0 (Num 0)) st;
             st = emit (AnalogWritePin AnalogPin_P1 (Num 0)) st;
             st = emit (AnalogWritePin AnalogPin_P2 (Num 0)) st;
             st = emit StopAllSounds st
         in reply ''RESET_OK'' st)
      else if cmd st = ''ping'' then
        reply ''pong'' st
      else if cmd st = ''version'' then
        reply ''microbit_V2026.01.1'' st
      else st)"

section \<open>The interpreter, Python encoding\<close>

text \<open>
  \<open>process_command\<close> of the Python encoding (the first 113 lines of the source file).
  MakeCode Python is compiled through the same runtime: \<open>trim\<close>, \<open>to_lower_case\<close> and
  \<open>split\<close> are the string functions above, \<open>int\<close> is the platform's conversion and
  \<open>str\<close> the conversion of a number to a string. Its loop
  \<^verbatim>\<open>
  for i in range(1, len(parts)):
      text += parts[i] + " "
  \<close>
  runs over the same indices as the loop of the TypeScript encoding. Its chain of
  branches ends with \<open>ping\<close>.
\<close>

definition process_command_py :: "platform \<Rightarrow> string \<Rightarrow> state \<Rightarrow> state" where
  "process_command_py pf msg_input st0 =
    (let raw_msg = toLowerCase (trim msg_input) in
     if length raw_msg = 0 then st0
     else
      let parts = py_string_split raw_msg CHR '' '';
          st = st0\<lparr>cmd := parts ! 0\<rparr>
      in
      if cmd st = ''get_sensor'' then
        (if length parts < 2 then st
         else
          let type = parts ! 1 in
          if type = ''temp'' then
            reply ('''' @ num_to_string (input_temperature pf)) (emit Temperature st)
          else if type = ''light'' then
            reply ('''' @ num_to_string (input_lightLevel pf)) (emit LightLevel st)
          else if type = ''accel'' then
            reply ('''' @ num_to_string (input_acceleration pf Strength))
              (emit (Acceleration Strength) st)
          else if type = ''compass'' then
            reply ('''' @ num_to_string (input_compassHeading pf))
              (emit CompassHeading st)
          else st)
      else if cmd st = ''get_pin'' then
        (if length parts < 2 then st
         else
          let p_name = parts ! 1;
              val = Num 0;
              (val, st) =
                (if p_name = ''p0'' then
                   (pins_analogReadPin pf AnalogPin_P0, emit (AnalogReadPin AnalogPin_P0) st)
                 else if p_name = ''p1'' then
                   (pins_analogReadPin pf AnalogPin_P1, emit (AnalogReadPin AnalogPin_P1) st)
                 else if p_name = ''p2'' then
                   (pins_analogReadPin pf AnalogPin_P2, emit (AnalogReadPin AnalogPin_P2) st)
                 else (val, st))
          in reply (''PIN '' @ p_name @ '': '' @ ('''' @ num_to_string val)) st)
      else if cmd st = ''pin'' then
        (if length parts < 4 then st
         else
          let mode = parts ! 1;
              p_label = parts ! 2;
              v = parseInt pf (parts ! 3)
          in
          if mode = ''d'' then
            (if p_label = ''p0'' then emit (DigitalWritePin DigitalPin_P0 v) st
             else if p_label = ''p1'' then emit (DigitalWritePin DigitalPin_P1 v) st
             else if p_label = ''p2'' then emit (DigitalWritePin DigitalPin_P2 v) st
             else st)
          else if p_label = ''p0'' then emit (AnalogWritePin AnalogPin_P0 v) st
          else if p_label = ''p1'' then emit (AnalogWritePin AnalogPin_P1 v) st
          else if p_label = ''p2'' then emit (AnalogWritePin AnalogPin_P2 v) st
          else st)
      else if cmd st = ''tone'' then
        (if length parts < 3 then st
         else
          let freq = parseInt pf (parts ! 1);
              dur = parseInt pf (parts ! 2)
          in emit (MusicPlay
                    (createSoundExpression Sawtooth freq freq (Num 255) (Num 255) dur
                       Effect_None Linear)
                    UntilDone) st)
      else if cmd st = ''print'' then
        (let text = '''';
             text = print_loop parts 1 text
         in emit (ShowString ('''' @ trim text)) st)
      else if cmd st = ''plot'' then
        (if length parts < 3 then st
         else emit (LedPlot (parseInt pf (parts ! 1)) (parseInt pf (parts ! 2))) st)
      else if cmd st = ''unplot'' then
        (if length parts < 3 then st
         else emit (LedUnplot (parseInt pf (parts ! 1)) (parseInt pf (parts ! 2))) st)
      else if cmd st = ''toggle'' then
        (if length parts < 3 then st
         else emit (LedToggle (parseInt pf (parts ! 1)) (parseInt pf (parts ! 2))) st)
      else if cmd st = ''clear'' then
        emit ClearScreen st
      else if cmd st = ''reset'' then
        (let st = emit ClearScreen st;
             st = emit (AnalogWritePin AnalogPin_P0 (Num 0)) st;
             st = emit (AnalogWritePin AnalogPin_P1 (Num 0)) st;
             st = emit (AnalogWritePin AnalogPin_P2 (Num 0)) st;
             st = emit StopAllSounds st
         in reply ''RESET_OK'' st)
      else if cmd st = ''ping'' then
        reply ''pong'' st
      else st)"

text \<open>
  The token sequence that \<open>process_command\<close> computes for an input line (its variable
  \<open>parts\<close>), and a platform and a starting state for the examples.
\<close>

definition parts_of :: "string \<Rightarrow> string list" where
  "parts_of s = py_string_split (toLowerCase (trim s)) CHR '' ''"

definition example_platform :: platform where
  "example_platform =
     \<lparr>parseInt = (\<lambda>s. if s = ''1'' then Num 1 else NaN),
      input_temperature = Num 21,
      input_lightLevel = Num 128,
      input_acceleration = (\<lambda>d. Num 1023),
      input_compassHeading = Num 270,
      pins_analogReadPin =
        (\<lambda>p. case p of AnalogPin_P0 \<Rightarrow> Num 0 | AnalogPin_P1 \<Rightarrow> Num 512 | AnalogPin_P2 \<Rightarrow> Num 1023)\<rparr>"

definition initial_state :: state where
  "initial_state = \<lparr>cmd = '''', trace = []\<rparr>"

section \<open>Facts about the string functions\<close>

lemma split_from_not_Nil: "split_from sep cur s \<noteq> []"
  by (induction s arbitrary: cur) auto

lemma py_string_split_not_Nil: "py_string_split s sep \<noteq> []"
  by (simp add: py_string_split_def split_from_not_Nil)

lemma of_char_lower_char:
  "(of_char (lower_char c) :: nat) =
     (if 65 \<le> (of_char c :: nat) \<and> (of_char c :: nat) \<le> 90 then of_char c + 32 else of_char c)"
  by (simp add: lower_char_def)

lemma is_space_lower_char: "is_space (lower_char c) = is_space c"
  by (auto simp: is_space_def of_char_lower_char)

lemma lower_char_idem: "lower_char (lower_char c) = lower_char c"
  by (simp add: lower_char_def)

lemma dropWhile_space_lower:
  "dropWhile is_space (map lower_char s) = map lower_char (dropWhile is_space s)"
  by (induction s) (auto simp: is_space_lower_char)

lemma trim_toLowerCase: "trim (toLowerCase s) = toLowerCase (trim s)"
  by (simp add: trim_def toLowerCase_def dropWhile_space_lower rev_map)

lemma toLowerCase_idem: "toLowerCase (toLowerCase s) = toLowerCase s"
  by (simp add: toLowerCase_def lower_char_idem)

lemma all_dropWhile: "(\<forall>x\<in>set (dropWhile P s). P x) \<longleftrightarrow> (\<forall>x\<in>set s. P x)"
  by (induction s) auto

lemma trim_Nil_iff: "trim s = [] \<longleftrightarrow> (\<forall>c\<in>set s. is_space c)"
  by (simp add: trim_def dropWhile_eq_Nil_conv all_dropWhile)

lemma dropWhile_fixed: "xs = [] \<or> \<not> P (hd xs) \<Longrightarrow> dropWhile P xs = xs"
  by (cases xs) auto

lemma strip_right_hd:
  assumes "xs = [] \<or> \<not> P (hd xs)"
  shows "rev (dropWhile P (rev xs)) = [] \<or> \<not> P (hd (rev (dropWhile P (rev xs))))"
proof (cases "rev (dropWhile P (rev xs)) = []")
  case True
  then show ?thesis by simp
next
  case False
  have "xs = rev (dropWhile P (rev xs)) @ rev (takeWhile P (rev xs))"
    by (metis rev_append rev_rev_ident takeWhile_dropWhile_id)
  then have "hd xs = hd (rev (dropWhile P (rev xs)))"
    using False by (metis hd_append2)
  moreover have "xs \<noteq> []" using False by auto
  ultimately show ?thesis using assms by simp
qed

lemma trim_idem: "trim (trim s) = trim s"
proof -
  let ?u = "dropWhile is_space s"
  have u: "?u = [] \<or> \<not> is_space (hd ?u)"
    using hd_dropWhile [of is_space s] by blast
  have "dropWhile is_space (trim s) = trim s"
    unfolding trim_def
    using strip_right_hd [of "dropWhile is_space s" is_space] u by (intro dropWhile_fixed) blast
  then show ?thesis
    by (simp add: trim_def [of "trim s"]) (simp add: trim_def)
qed

lemma normalize_idem:
  "toLowerCase (trim (toLowerCase (trim s))) = toLowerCase (trim s)"
  by (simp add: trim_toLowerCase trim_idem toLowerCase_idem)

lemma length_toLowerCase: "length (toLowerCase s) = length s"
  by (simp add: toLowerCase_def)

lemma hd_split_from: "hd (split_from sep cur s) = cur @ takeWhile (\<lambda>c. c \<noteq> sep) s"
  by (induction s arbitrary: cur) auto

lemma first_token_takeWhile:
  "parts_of s ! 0 = takeWhile (\<lambda>c. c \<noteq> CHR '' '') (toLowerCase (trim s))"
proof -
  have "parts_of s \<noteq> []"
    by (simp add: parts_of_def py_string_split_not_Nil)
  then have "parts_of s ! 0 = hd (parts_of s)"
    by (simp add: hd_conv_nth)
  then show ?thesis
    by (simp add: parts_of_def py_string_split_def hd_split_from)
qed

lemma parts_of_empty: "toLowerCase (trim s) = [] \<Longrightarrow> parts_of s = [[]]"
  by (simp add: parts_of_def py_string_split_def)

section \<open>Facts about the loop and the responder\<close>

lemma print_loop_eq:
  "print_loop parts i text = text @ concat (map (\<lambda>a. a @ '' '') (drop i parts))"
proof (induction parts i "text" rule: print_loop.induct)
  case (1 parts i t)
  show ?case
  proof (cases "i < length parts")
    case True
    then show ?thesis
      using 1 by (subst print_loop.simps) (simp add: Cons_nth_drop_Suc [symmetric])
  next
    case False
    then show ?thesis by (subst print_loop.simps) simp
  qed
qed

lemma trace_emit: "trace (emit e st) = trace st @ [e]"
  by (simp add: emit_def)

lemma trace_reply: "trace (reply msg st) = trace st @ [UartWriteLine msg, SerialWriteLine msg]"
  by (simp add: reply_def emit_def)

section \<open>Unknown commands\<close>

text \<open>
  Claim C1. When the first token of the trimmed, lower-cased line is none of the twelve
  command names, \<open>process_command\<close> adds no event: no hardware call is made and nothing
  is written to the Bluetooth UART or to the serial line.
\<close>

theorem unknown_command_no_effect:
  assumes "parts_of s ! 0 \<notin> {''get_sensor'', ''get_pin'', ''pin'', ''tone'', ''print'', ''plot'',
             ''unplot'', ''toggle'', ''clear'', ''reset'', ''ping'', ''version''}"
  shows "trace (process_command pf s st) = trace st"
  using assms by (simp add: process_command_def parts_of_def Let_def)

theorem unknown_command_no_effect_witness:
  "parts_of ''Hello world'' ! 0 \<notin> {''get_sensor'', ''get_pin'', ''pin'', ''tone'', ''print'',
      ''plot'', ''unplot'', ''toggle'', ''clear'', ''reset'', ''ping'', ''version''}
   \<and> trace (process_command example_platform ''Hello world'' initial_state) = []"
proof -
  have p: "parts_of ''Hello world'' = [''hello'', ''world'']"
    by code_simp
  have h: "parts_of ''Hello world'' ! 0 \<notin> {''get_sensor'', ''get_pin'', ''pin'', ''tone'',
      ''print'', ''plot'', ''unplot'', ''toggle'', ''clear'', ''reset'', ''ping'', ''version''}"
    by (simp add: p)
  show ?thesis
    using h unknown_command_no_effect [OF h, of example_platform initial_state]
    by (simp add: initial_state_def)
qed

section \<open>Too few tokens\<close>

text \<open>
  Claim C2. When the command is \<open>get_sensor\<close> or \<open>get_pin\<close> with fewer than 2 tokens,
  \<open>tone\<close>, \<open>plot\<close>, \<open>unplot\<close> or \<open>toggle\<close> with fewer than 3, or \<open>pin\<close> with fewer
  than 4, \<open>process_command\<close> returns without a reply and without a hardware call.
\<close>

theorem under_arity_silent:
  assumes "(parts_of s ! 0 \<in> {''get_sensor'', ''get_pin''} \<and> length (parts_of s) < 2)
         \<or> (parts_of s ! 0 \<in> {''tone'', ''plot'', ''unplot'', ''toggle''} \<and> length (parts_of s) < 3)
         \<or> (parts_of s ! 0 = ''pin'' \<and> length (parts_of s) < 4)"
  shows "trace (process_command pf s st) = trace st"
  using assms
  by (elim disjE conjE insertE emptyE)
     (simp_all add: process_command_def parts_of_def Let_def)

theorem under_arity_silent_witness:
  "parts_of ''get_pin'' = [''get_pin'']
   \<and> trace (process_command example_platform ''get_pin'' initial_state) = []
   \<and> parts_of ''toggle 3'' = [''toggle'', ''3'']
   \<and> trace (process_command example_platform ''toggle 3'' initial_state) = []
   \<and> parts_of ''pin d p0'' = [''pin'', ''d'', ''p0'']
   \<and> trace (process_command example_platform ''pin d p0'' initial_state) = []"
proof -
  have a: "parts_of ''get_pin'' = [''get_pin'']"
    by code_simp
  have b: "parts_of ''toggle 3'' = [''toggle'', ''3'']"
    by code_simp
  have c: "parts_of ''pin d p0'' = [''pin'', ''d'', ''p0'']"
    by code_simp
  show ?thesis
    using under_arity_silent [of "''get_pin''" example_platform initial_state]
      under_arity_silent [of "''toggle 3''" example_platform initial_state]
      under_arity_silent [of "''pin d p0''" example_platform initial_state]
    by (simp add: a b c initial_state_def)
qed

section \<open>ping and version\<close>

text \<open>
  Claim C3. A line whose first token is \<open>ping\<close> is answered with exactly \<open>pong\<close>, and a
  line whose first token is \<open>version\<close> with exactly the version string, on both
  transports and whatever tokens follow.
\<close>

theorem ping_version_reply:
  "(parts_of s ! 0 = ''ping'' \<longrightarrow>
      trace (process_command pf s st) = trace st @ [UartWriteLine ''pong'', SerialWriteLine ''pong''])
   \<and> (parts_of s ! 0 = ''version'' \<longrightarrow>
      trace (process_command pf s st) =
        trace st @ [UartWriteLine ''microbit_V2026.01.1'', SerialWriteLine ''microbit_V2026.01.1''])"
proof (cases "toLowerCase (trim s) = []")
  case True
  then show ?thesis by (simp add: parts_of_empty)
next
  case False
  have "parts_of s ! 0 = ''ping'' \<Longrightarrow>
      trace (process_command pf s st) = trace st @ [UartWriteLine ''pong'', SerialWriteLine ''pong'']"
    using False by (simp add: process_command_def parts_of_def Let_def trace_reply)
  moreover have "parts_of s ! 0 = ''version'' \<Longrightarrow>
      trace (process_command pf s st) =
        trace st @ [UartWriteLine ''microbit_V2026.01.1'', SerialWriteLine ''microbit_V2026.01.1'']"
    using False by (simp add: process_command_def parts_of_def Let_def trace_reply)
  ultimately show ?thesis by blast
qed

theorem ping_version_reply_witness:
  "parts_of ''ping 1 2 3'' ! 0 = ''ping''
   \<and> trace (process_command example_platform ''ping 1 2 3'' initial_state) =
       [UartWriteLine ''pong'', SerialWriteLine ''pong'']
   \<and> parts_of ''version now'' ! 0 = ''version''
   \<and> trace (process_command example_platform ''version now'' initial_state) =
       [UartWriteLine ''microbit_V2026.01.1'', SerialWriteLine ''microbit_V2026.01.1'']"
proof -
  have a: "parts_of ''ping 1 2 3'' ! 0 = ''ping''"
    by code_simp
  have b: "parts_of ''version now'' ! 0 = ''version''"
    by code_simp
  show ?thesis
    using ping_version_reply [of "''ping 1 2 3''" example_platform initial_state]
      ping_version_reply [of "''version now''" example_platform initial_state]
    by (simp add: a b initial_state_def)
qed

section \<open>Reading a pin\<close>

text \<open>
  Claim C4. For a \<open>get_pin\<close> line with an argument token \<open>x\<close>: when \<open>x\<close> is \<open>p0\<close>,
  \<open>p1\<close> or \<open>p2\<close> the pin is read once and the reply is \<open>PIN x: v\<close> with \<open>v\<close> the value
  that the analog read returned; for any other \<open>x\<close> no pin is read and the reply
  \<open>PIN x: 0\<close> is still sent.
\<close>

theorem get_pin_reply:
  assumes "parts_of s ! 0 = ''get_pin''" and "2 \<le> length (parts_of s)"
    and "x = parts_of s ! 1"
  shows "(x = ''p0'' \<longrightarrow> trace (process_command pf s st) = trace st @
            [AnalogReadPin AnalogPin_P0,
             UartWriteLine (''PIN '' @ x @ '': '' @ num_to_string (pins_analogReadPin pf AnalogPin_P0)),
             SerialWriteLine (''PIN '' @ x @ '': '' @ num_to_string (pins_analogReadPin pf AnalogPin_P0))])
       \<and> (x = ''p1'' \<longrightarrow> trace (process_command pf s st) = trace st @
            [AnalogReadPin AnalogPin_P1,
             UartWriteLine (''PIN '' @ x @ '': '' @ num_to_string (pins_analogReadPin pf AnalogPin_P1)),
             SerialWriteLine (''PIN '' @ x @ '': '' @ num_to_string (pins_analogReadPin pf AnalogPin_P1))])
       \<and> (x = ''p2'' \<longrightarrow> trace (process_command pf s st) = trace st @
            [AnalogReadPin AnalogPin_P2,
             UartWriteLine (''PIN '' @ x @ '': '' @ num_to_string (pins_analogReadPin pf AnalogPin_P2)),
             SerialWriteLine (''PIN '' @ x @ '': '' @ num_to_string (pins_analogReadPin pf AnalogPin_P2))])
       \<and> (x \<notin> {''p0'', ''p1'', ''p2''} \<longrightarrow> trace (process_command pf s st) = trace st @
            [UartWriteLine (''PIN '' @ x @ '': 0''), SerialWriteLine (''PIN '' @ x @ '': 0'')])"
proof -
  have ne: "toLowerCase (trim s) \<noteq> []"
    using assms(1) by (auto simp: parts_of_empty)
  have len: "\<not> length (py_string_split (toLowerCase (trim s)) CHR '' '') < 2"
    using assms(2) by (simp add: parts_of_def)
  have zero: "num_to_string (Num 0) = ''0''"
    by code_simp
  have p0: ?thesis if "x = ''p0''"
    using that ne len assms(1,3)
    by (simp add: process_command_def parts_of_def Let_def trace_reply trace_emit)
  have p1: ?thesis if "x = ''p1''"
    using that ne len assms(1,3)
    by (simp add: process_command_def parts_of_def Let_def trace_reply trace_emit)
  have p2: ?thesis if "x = ''p2''"
    using that ne len assms(1,3)
    by (simp add: process_command_def parts_of_def Let_def trace_reply trace_emit)
  have other: ?thesis if "x \<noteq> ''p0''" "x \<noteq> ''p1''" "x \<noteq> ''p2''"
    using that ne len assms(1,3) zero
    by (simp add: process_command_def parts_of_def Let_def trace_reply trace_emit)
  show ?thesis using p0 p1 p2 other by blast
qed

theorem get_pin_reply_witness:
  "parts_of ''get_pin p1'' = [''get_pin'', ''p1'']
   \<and> trace (process_command example_platform ''get_pin p1'' initial_state) =
       [AnalogReadPin AnalogPin_P1, UartWriteLine ''PIN p1: 512'', SerialWriteLine ''PIN p1: 512'']
   \<and> parts_of ''get_pin p7'' = [''get_pin'', ''p7'']
   \<and> trace (process_command example_platform ''get_pin p7'' initial_state) =
       [UartWriteLine ''PIN p7: 0'', SerialWriteLine ''PIN p7: 0'']"
proof -
  have a: "parts_of ''get_pin p1'' = [''get_pin'', ''p1'']"
    by code_simp
  have b: "parts_of ''get_pin p7'' = [''get_pin'', ''p7'']"
    by code_simp
  have v: "num_to_string (pins_analogReadPin example_platform AnalogPin_P1) = ''512''"
    by code_simp
  show ?thesis
    using get_pin_reply [of "''get_pin p1''" "''p1''" example_platform initial_state]
      get_pin_reply [of "''get_pin p7''" "''p7''" example_platform initial_state]
    by (simp add: a b v initial_state_def)
qed

section \<open>reset\<close>

text \<open>
  Claim C5. A line whose first token is \<open>reset\<close> clears the display, writes 0 to the
  analog pins P0, P1 and P2, stops all sounds, and only then sends the reply, which is
  exactly \<open>RESET_OK\<close>.
\<close>

theorem reset_actions_then_reply:
  assumes "parts_of s ! 0 = ''reset''"
  shows "trace (process_command pf s st) =
           trace st @ [ClearScreen,
                       AnalogWritePin AnalogPin_P0 (Num 0),
                       AnalogWritePin AnalogPin_P1 (Num 0),
                       AnalogWritePin AnalogPin_P2 (Num 0),
                       StopAllSounds,
                       UartWriteLine ''RESET_OK'',
                       SerialWriteLine ''RESET_OK'']"
proof (cases "toLowerCase (trim s) = []")
  case True
  then show ?thesis using assms by (simp add: parts_of_empty)
next
  case False
  then show ?thesis
    using assms by (simp add: process_command_def parts_of_def Let_def trace_reply trace_emit)
qed

theorem reset_actions_then_reply_witness:
  "parts_of '' RESET all'' ! 0 = ''reset''
   \<and> trace (process_command example_platform '' RESET all'' initial_state) =
       [ClearScreen,
        AnalogWritePin AnalogPin_P0 (Num 0),
        AnalogWritePin AnalogPin_P1 (Num 0),
        AnalogWritePin AnalogPin_P2 (Num 0),
        StopAllSounds,
        UartWriteLine ''RESET_OK'',
        SerialWriteLine ''RESET_OK'']"
proof -
  have h: "parts_of '' RESET all'' ! 0 = ''reset''"
    by code_simp
  show ?thesis
    using h reset_actions_then_reply [OF h, of example_platform initial_state]
    by (simp add: initial_state_def)
qed

section \<open>Normalization of the input\<close>

text \<open>
  Claim C6. \<open>process_command\<close> gives the same final state, hence the same replies and
  hardware calls, on a raw line and on its trimmed, lower-cased form.
\<close>

theorem normalized_input_same:
  "process_command pf (toLowerCase (trim s)) st = process_command pf s st"
  by (simp add: process_command_def normalize_idem)

theorem normalized_input_same_witness:
  "process_command example_platform ''  PING  '' initial_state =
   process_command example_platform ''ping'' initial_state"
proof -
  have n: "toLowerCase (trim ''  PING  '') = ''ping''"
    by code_simp
  show ?thesis
    using normalized_input_same [of example_platform "''  PING  ''" initial_state]
    by (simp add: n)
qed

text \<open>
  Claim C7. On the empty line and on a line of whitespace only, \<open>process_command\<close>
  returns the state it was given: no reply, no hardware call, and \<open>cmd\<close> is not assigned,
  so no branch of the dispatch is reached.
\<close>

theorem blank_line_no_effect:
  assumes "\<forall>c\<in>set s. is_space c"
  shows "process_command pf s st = st"
  using assms by (simp add: process_command_def trim_Nil_iff [symmetric] toLowerCase_def)

theorem blank_line_no_effect_witness:
  "is_space CHR '' '' \<and> is_space (CHR 0x09)
   \<and> process_command example_platform [CHR '' '', CHR 0x09, CHR '' ''] initial_state = initial_state
   \<and> process_command example_platform [] initial_state = initial_state"
proof -
  have a: "is_space CHR '' ''" and b: "is_space (CHR 0x09)"
    by (simp_all add: is_space_def)
  show ?thesis
    using a b blank_line_no_effect [of "[CHR '' '', CHR 0x09, CHR '' '']" example_platform initial_state]
      blank_line_no_effect [of "[]" example_platform initial_state]
    by simp
qed

section \<open>print\<close>

text \<open>
  Claim C8. For a line whose first token is \<open>print\<close>, the text shown on the display is
  the concatenation of every argument token followed by one space, trimmed. The loop of
  the source runs over the indices from 1; \<open>print_loop_eq\<close> relates it to the
  concatenation over the argument tokens. In particular \<open>print hello world\<close> shows
  \<open>hello world\<close>.
\<close>

theorem print_shows_joined_arguments:
  assumes "parts_of s ! 0 = ''print''"
  shows "trace (process_command pf s st) =
           trace st @ [ShowString (trim (concat (map (\<lambda>a. a @ '' '') (tl (parts_of s)))))]"
proof -
  have ne: "toLowerCase (trim s) \<noteq> []"
    using assms by (auto simp: parts_of_empty)
  have loop: "print_loop (parts_of s) 1 [] = concat (map (\<lambda>a. a @ '' '') (tl (parts_of s)))"
    by (simp add: print_loop_eq drop_Suc)
  show ?thesis
    using ne assms loop
    by (simp add: process_command_def parts_of_def Let_def trace_emit)
qed

theorem print_shows_joined_arguments_witness:
  "parts_of ''print hello world'' ! 0 = ''print''
   \<and> trace (process_command example_platform ''print hello world'' initial_state) =
       [ShowString ''hello world'']"
proof -
  have h: "parts_of ''print hello world'' ! 0 = ''print''"
    by code_simp
  have t: "trim (concat (map (\<lambda>a. a @ '' '') (tl (parts_of ''print hello world'')))) =
             ''hello world''"
    by code_simp
  show ?thesis
    using h print_shows_joined_arguments [OF h, of example_platform initial_state]
    by (simp add: t initial_state_def)
qed

section \<open>The two encodings\<close>

text \<open>
  Claim C9. The source file holds the interpreter twice and the claim is that both
  encodings produce the same replies and hardware calls on every line. The chain of
  branches of the Python encoding ends with \<open>ping\<close>, while the TypeScript encoding goes
  on with \<open>version\<close>: on the line \<open>version\<close> the TypeScript encoding replies with the
  version string and the Python encoding does nothing.
\<close>

theorem encodings_differ_on_version:
  "trace (process_command pf ''version'' st) =
      trace st @ [UartWriteLine ''microbit_V2026.01.1'', SerialWriteLine ''microbit_V2026.01.1'']
   \<and> trace (process_command_py pf ''version'' st) = trace st"
proof -
  have n: "toLowerCase (trim ''version'') = ''version''"
    by code_simp
  have p: "py_string_split ''version'' CHR '' '' = [''version'']"
    by code_simp
  show ?thesis
    by (simp add: process_command_def process_command_py_def n p trace_reply)
qed

text \<open>On every line whose first token is not \<open>version\<close> the two encodings agree.\<close>

lemma encodings_agree_unless_version:
  assumes "parts_of s ! 0 \<noteq> ''version''"
  shows "process_command_py pf s st = process_command pf s st"
  using assms
  by (simp add: process_command_def process_command_py_def parts_of_def Let_def)

section \<open>The global variable cmd\<close>

text \<open>
  Claim C10. When the trimmed line is not empty, \<open>process_command\<close> leaves in \<open>cmd\<close> the
  first token of the normalized line (the characters before its first space), whether
  or not that token is a command name; when the trimmed line is empty, \<open>cmd\<close> keeps its
  value. Nothing reads the value that \<open>cmd\<close> had before the call: the events of
  \<open>process_command\<close> and of \<open>reply\<close> are the same from any earlier value of \<open>cmd\<close>.
\<close>

theorem cmd_is_first_token:
  "(trim s \<noteq> [] \<longrightarrow>
      cmd (process_command pf s st) = parts_of s ! 0
      \<and> parts_of s ! 0 = takeWhile (\<lambda>c. c \<noteq> CHR '' '') (toLowerCase (trim s)))
   \<and> (trim s = [] \<longrightarrow> cmd (process_command pf s st) = cmd st)
   \<and> trace (process_command pf s (st\<lparr>cmd := c\<rparr>)) = trace (process_command pf s st)
   \<and> trace (reply msg (st\<lparr>cmd := c\<rparr>)) = trace (reply msg st)"
proof (intro conjI impI)
  assume "trim s \<noteq> []"
  then have "toLowerCase (trim s) \<noteq> []" by (simp add: toLowerCase_def)
  then show "cmd (process_command pf s st) = parts_of s ! 0"
    by (simp add: process_command_def parts_of_def Let_def reply_def emit_def split: prod.splits)
next
  show "parts_of s ! 0 = takeWhile (\<lambda>c. c \<noteq> CHR '' '') (toLowerCase (trim s))"
    by (rule first_token_takeWhile)
next
  assume "trim s = []"
  then show "cmd (process_command pf s st) = cmd st"
    by (simp add: process_command_def toLowerCase_def)
next
  show "trace (process_command pf s (st\<lparr>cmd := c\<rparr>)) = trace (process_command pf s st)"
    by (simp add: process_command_def parts_of_def Let_def reply_def emit_def split: prod.splits)
next
  show "trace (reply msg (st\<lparr>cmd := c\<rparr>)) = trace (reply msg st)"
    by (simp add: reply_def emit_def)
qed

theorem cmd_is_first_token_witness:
  "trim ''Foo bar'' \<noteq> []
   \<and> cmd (process_command example_platform ''Foo bar'' initial_state) = ''foo''
   \<and> trim [CHR '' '', CHR '' ''] = []
   \<and> cmd (process_command example_platform [CHR '' '', CHR '' '']
        (initial_state\<lparr>cmd := ''ping''\<rparr>)) = ''ping''"
proof -
  have a: "trim ''Foo bar'' \<noteq> []"
    by code_simp
  have b: "parts_of ''Foo bar'' ! 0 = ''foo''"
    by code_simp
  have c: "trim [CHR '' '', CHR '' ''] = []"
    by code_simp
  show ?thesis
    using cmd_is_first_token [of "''Foo bar''" example_platform initial_state]
      cmd_is_first_token [of "[CHR '' '', CHR '' '']" example_platform
        "initial_state\<lparr>cmd := ''ping''\<rparr>"]
    by (simp add: a b c)
qed

end
